theory Spec2Isabelle
  imports Main "HOL-Library.Word" "HOL-Library.Sublist"
begin

section \<open>JavaScript values used by lib/bpUtil.js\<close>

text \<open>
  A JavaScript string is a sequence of 16-bit code units. String literals of the source
  are written with \<open>lit\<close>, which reads an ASCII literal as code units.
\<close>

type_synonym jschar = "16 word"
type_synonym jsstring = "jschar list"

definition lit :: "string \<Rightarrow> jsstring" where
  "lit s = map of_char s"

text \<open>
  Exceptions that can reach the functions of the module: a failure thrown by an XPCOM
  service or by the querystring module (carrying its string form, which
  \<open>"eTLDService error: " + e\<close> prints), the \<open>URIError\<close> of \<open>decodeURI\<close> and the
  \<open>TypeError\<close> of a property read on \<open>undefined\<close>.
\<close>

datatype exn = ServiceFailure jsstring | URIError | TypeError

fun exnToString :: "exn \<Rightarrow> jsstring" where
  "exnToString (ServiceFailure s) = s"
| "exnToString URIError = lit ''URIError: malformed URI sequence''"
| "exnToString TypeError = lit ''TypeError''"

text \<open>
  The values \<open>querystring.parse\<close> can hand back and that the module then tests with
  \<open>!q\<close>, indexes with \<open>q[name]\<close> and passes to \<open>decodeURI\<close>. Numbers are left out:
  a query-string parser has no use for them.
\<close>

datatype jsval =
    JSUndefined
  | JSNull
  | JSBool bool
  | JSString jsstring
  | JSArray "jsval list"
  | JSObject "(jsstring \<times> jsval) list"

text \<open>ToBoolean (ES5 9.2): what \<open>!q\<close> negates.\<close>

fun ToBoolean :: "jsval \<Rightarrow> bool" where
  "ToBoolean JSUndefined = False"
| "ToBoolean JSNull = False"
| "ToBoolean (JSBool b) = b"
| "ToBoolean (JSString s) = (s \<noteq> [])"
| "ToBoolean (JSArray xs) = True"
| "ToBoolean (JSObject ps) = True"

text \<open>
  ToString (ES5 9.8), which \<open>decodeURI\<close> applies to its argument. An array joins the
  string forms of its elements with commas, \<open>undefined\<close> and \<open>null\<close> elements giving
  the empty string (ES5 15.4.4.5).
\<close>

fun joinWith :: "jsstring \<Rightarrow> jsstring list \<Rightarrow> jsstring" where
  "joinWith sep [] = []"
| "joinWith sep [x] = x"
| "joinWith sep (x # y # zs) = x @ sep @ joinWith sep (y # zs)"

fun ToString :: "jsval \<Rightarrow> jsstring" where
  "ToString JSUndefined = lit ''undefined''"
| "ToString JSNull = lit ''null''"
| "ToString (JSBool b) = (if b then lit ''true'' else lit ''false'')"
| "ToString (JSString s) = s"
| "ToString (JSArray xs) =
     joinWith (lit '','')
       (map (\<lambda>x. if x = JSUndefined then [] else if x = JSNull then [] else ToString x) xs)"
| "ToString (JSObject ps) = lit ''[object Object]''"

text \<open>
  \<open>q[name]\<close> for one of the three parameter names of the provider table. Only an
  object has own properties of such a name; on a string, an array or a boolean the read
  goes to the prototype, which has none of them, and gives \<open>undefined\<close>. On
  \<open>undefined\<close> and \<open>null\<close> the read throws.
\<close>

fun getProp :: "jsval \<Rightarrow> jsstring \<Rightarrow> exn + jsval" where
  "getProp JSUndefined name = Inl TypeError"
| "getProp JSNull name = Inl TypeError"
| "getProp (JSObject ps) name =
     (case map_of ps name of None \<Rightarrow> Inr JSUndefined | Some v \<Rightarrow> Inr v)"
| "getProp v name = Inr JSUndefined"

section \<open>The string built-ins the module calls\<close>

text \<open>
  \<open>s.indexOf(pat)\<close> (ES5 15.5.4.7): the smallest index at which \<open>pat\<close> occurs in
  \<open>s\<close>, or -1. The empty pattern occurs at index 0.
\<close>

primrec indexOfFrom :: "nat \<Rightarrow> jsstring \<Rightarrow> jsstring \<Rightarrow> int" where
  "indexOfFrom k [] pat = (if pat = [] then int k else - 1)"
| "indexOfFrom k (c # cs) pat =
     (if prefix pat (c # cs) then int k else indexOfFrom (Suc k) cs pat)"

definition indexOf :: "jsstring \<Rightarrow> jsstring \<Rightarrow> int" where
  "indexOf s pat = indexOfFrom 0 s pat"

text \<open>
  \<open>s.substr(start, length)\<close> (ES5 B.2.3): a negative start counts from the end, the
  length is cut to what is left, and a length that is not positive gives the empty
  string. \<open>None\<close> stands for an omitted length.
\<close>

definition substr :: "jsstring \<Rightarrow> int \<Rightarrow> int option \<Rightarrow> jsstring" where
  "substr s start len =
     (let size = int (length s);
          lo = (if start < 0 then max (size + start) 0 else start);
          wanted = (case len of None \<Rightarrow> size | Some l \<Rightarrow> l);
          n = min (max wanted 0) (size - lo)
      in if n \<le> 0 then [] else take (nat n) (drop (nat lo) s))"

text \<open>
  \<open>s.slice(start, end)\<close> (ES5 15.5.4.13): negative positions count from the end, both
  are cut to the string. \<open>None\<close> stands for an omitted end.
\<close>

definition slice :: "jsstring \<Rightarrow> int \<Rightarrow> int option \<Rightarrow> jsstring" where
  "slice s start stop =
     (let size = int (length s);
          lo = (if start < 0 then max (size + start) 0 else min start size);
          e = (case stop of None \<Rightarrow> size | Some x \<Rightarrow> x);
          hi = (if e < 0 then max (size + e) 0 else min e size)
      in take (nat (max (hi - lo) 0)) (drop (nat lo) s))"

text \<open>
  \<open>s.replace(pat, rep)\<close> with a string pattern (ES5 15.5.4.11): only the first
  occurrence is replaced. The replacement is taken literally, which is what the
  built-in does for a replacement without \<open>$\<close>, such as the \<open>" "\<close> of the source.
\<close>

definition replaceFirst :: "jsstring \<Rightarrow> jsstring \<Rightarrow> jsstring \<Rightarrow> jsstring" where
  "replaceFirst s pat rep =
     (let i = indexOf s pat
      in if i < 0 then s else take (nat i) s @ rep @ drop (nat i + length pat) s)"

text \<open>
  \<open>n.toString(16)\<close> for a non-negative integer: lowercase hexadecimal digits, no
  leading zero, \<open>"0"\<close> for zero.
\<close>

definition hexDigit :: "nat \<Rightarrow> jschar" where
  "hexDigit d = (if d < 10 then of_nat (48 + d) else of_nat (87 + d))"

fun toString16 :: "nat \<Rightarrow> jsstring" where
  "toString16 n = (if n < 16 then [hexDigit n] else toString16 (n div 16) @ [hexDigit (n mod 16)])"

text \<open>
  \<open>s.toLowerCase()\<close> (ES5 15.5.4.16). The ASCII letters are mapped here; the lower
  case of a code unit outside ASCII comes from the Unicode tables of the platform,
  a parameter of the model.
\<close>

definition toLowerCase :: "(jschar \<Rightarrow> jsstring) \<Rightarrow> jsstring \<Rightarrow> jsstring" where
  "toLowerCase unicodeLower s =
     concat (map (\<lambda>c. if c < 0x80 then (if 0x41 \<le> c \<and> c \<le> 0x5A then [c + 0x20] else [c])
                       else unicodeLower c) s)"

section \<open>decodeURI\<close>

text \<open>
  \<open>decodeURI\<close> (ES5.1 15.1.3, the operation Decode with the reserved set of
  \<open>decodeURI\<close>): \<open>%XY\<close> is replaced by the code unit it escapes, unless that is one of
  the reserved characters \<open>; / ? : @ & = + $ , #\<close>, whose escape is kept as written.
  Escaped octets with the top bit set must form one valid UTF-8 sequence, which is
  replaced by its code point (a surrogate pair above U+FFFF). Anything else after a
  \<open>%\<close> throws \<open>URIError\<close>.
\<close>

definition hexDigitValue :: "jschar \<Rightarrow> nat option" where
  "hexDigitValue c =
     (if 0x30 \<le> c \<and> c \<le> 0x39 then Some (unat c - 0x30)
      else if 0x41 \<le> c \<and> c \<le> 0x46 then Some (unat c - 0x37)
      else if 0x61 \<le> c \<and> c \<le> 0x66 then Some (unat c - 0x57)
      else None)"

text \<open>The octet and the rest of the string, when the string starts with \<open>%XY\<close>.\<close>

fun escapedOctet :: "jsstring \<Rightarrow> (nat \<times> jsstring) option" where
  "escapedOctet (p # a # b # rest) =
     (if p = 0x25 then
        (case hexDigitValue a of
           None \<Rightarrow> None
         | Some x \<Rightarrow> (case hexDigitValue b of None \<Rightarrow> None | Some y \<Rightarrow> Some (16 * x + y, rest)))
      else None)"
| "escapedOctet s = None"

text \<open>The next \<open>j\<close> escaped octets, each of the form \<open>10xxxxxx\<close>.\<close>

fun continuationOctets :: "nat \<Rightarrow> jsstring \<Rightarrow> (nat list \<times> jsstring) option" where
  "continuationOctets 0 s = Some ([], s)"
| "continuationOctets (Suc j) s =
     (case escapedOctet s of
        None \<Rightarrow> None
      | Some (B, rest) \<Rightarrow>
          if B div 64 = 2 then
            (case continuationOctets j rest of
               None \<Rightarrow> None
             | Some (bs, rest') \<Rightarrow> Some (B # bs, rest'))
          else None)"

text \<open>The number of leading one bits of an octet with the top bit set.\<close>

definition leadingOnes :: "nat \<Rightarrow> nat" where
  "leadingOnes B =
     (if B < 0xC0 then 1 else if B < 0xE0 then 2 else if B < 0xF0 then 3
      else if B < 0xF8 then 4 else 5)"

text \<open>
  The code point of a UTF-8 sequence of two to four octets; \<open>None\<close> for an overlong
  form, a surrogate or a value above U+10FFFF.
\<close>

fun utf8Value :: "nat list \<Rightarrow> nat option" where
  "utf8Value [b0, b1] =
     (let v = (b0 - 0xC0) * 64 + (b1 - 0x80) in if v < 0x80 then None else Some v)"
| "utf8Value [b0, b1, b2] =
     (let v = (b0 - 0xE0) * 4096 + (b1 - 0x80) * 64 + (b2 - 0x80)
      in if v < 0x800 then None else if 0xD800 \<le> v \<and> v \<le> 0xDFFF then None else Some v)"
| "utf8Value [b0, b1, b2, b3] =
     (let v = (b0 - 0xF0) * 262144 + (b1 - 0x80) * 4096 + (b2 - 0x80) * 64 + (b3 - 0x80)
      in if v < 0x10000 then None else if 0x10FFFF < v then None else Some v)"
| "utf8Value bs = None"

definition codeUnits :: "nat \<Rightarrow> jsstring" where
  "codeUnits v =
     (if v < 0x10000 then [of_nat v]
      else [of_nat ((v - 0x10000) div 1024 mod 1024 + 0xD800),
            of_nat ((v - 0x10000) mod 1024 + 0xDC00)])"

definition andThen :: "jsstring \<Rightarrow> exn + jsstring \<Rightarrow> exn + jsstring" where
  "andThen s r = (case r of Inl e \<Rightarrow> Inl e | Inr t \<Rightarrow> Inr (s @ t))"

lemma escapedOctet_shorter:
  "escapedOctet s = Some (B, rest) \<Longrightarrow> length rest < length s"
  by (induction s rule: escapedOctet.induct) (auto split: if_splits option.splits)

lemma continuationOctets_shorter:
  "continuationOctets j s = Some (bs, rest) \<Longrightarrow> length rest \<le> length s"
proof (induction j s arbitrary: bs rest rule: continuationOctets.induct)
  case (1 s)
  then show ?case by simp
next
  case (2 j s)
  from "2.prems" obtain B r bs' where e: "escapedOctet s = Some (B, r)"
    and d: "B div 64 = 2" and c: "continuationOctets j r = Some (bs', rest)"
    by (auto split: option.splits if_splits)
  from "2.IH" [OF e refl d c] have "length rest \<le> length r" .
  with escapedOctet_shorter [OF e] show ?case by simp
qed

function Decode :: "jsstring \<Rightarrow> jsstring \<Rightarrow> exn + jsstring" where
  "Decode reservedSet [] = Inr []"
| "Decode reservedSet (c # cs) =
     (if c \<noteq> 0x25 then andThen [c] (Decode reservedSet cs)
      else
        (case escapedOctet (c # cs) of
           None \<Rightarrow> Inl URIError
         | Some (B, rest) \<Rightarrow>
             if B < 0x80 then
               andThen (if of_nat B \<in> set reservedSet then take 3 (c # cs) else [of_nat B])
                 (Decode reservedSet rest)
             else if leadingOnes B = 1 \<or> 4 < leadingOnes B then Inl URIError
             else
               (case continuationOctets (leadingOnes B - 1) rest of
                  None \<Rightarrow> Inl URIError
                | Some (bs, rest') \<Rightarrow>
                    (case utf8Value (B # bs) of
                       None \<Rightarrow> Inl URIError
                     | Some v \<Rightarrow> andThen (codeUnits v) (Decode reservedSet rest')))))"
  by pat_completeness auto
termination
proof (relation "measure (\<lambda>(r, s). length s)")
  show "wf (measure (\<lambda>(r, s). length s))" by simp
next
  fix reservedSet :: jsstring and c :: jschar and cs :: jsstring
  show "((reservedSet, cs), (reservedSet, c # cs)) \<in> measure (\<lambda>(r, s). length s)" by simp
next
  fix reservedSet :: jsstring and c :: jschar and cs x2 rest :: jsstring and B :: nat
    and x :: "nat \<times> jsstring"
  assume "escapedOctet (c # cs) = Some x" "(B, rest) = x"
  then have "length rest < length (c # cs)" using escapedOctet_shorter by metis
  then show "((reservedSet, rest), (reservedSet, c # cs)) \<in> measure (\<lambda>(r, s). length s)"
    by simp
next
  fix reservedSet :: jsstring and c :: jschar and cs rest rest' :: jsstring and B v :: nat
    and x :: "nat \<times> jsstring" and y :: "nat list \<times> jsstring" and bs :: "nat list"
  assume "escapedOctet (c # cs) = Some x" "(B, rest) = x"
    and "continuationOctets (leadingOnes B - 1) rest = Some y" "(bs, rest') = y"
  then have "length rest < length (c # cs)" "length rest' \<le> length rest"
    using escapedOctet_shorter continuationOctets_shorter by metis+
  then show "((reservedSet, rest'), (reservedSet, c # cs)) \<in> measure (\<lambda>(r, s). length s)"
    by simp
qed

definition decodeURI :: "jsstring \<Rightarrow> exn + jsstring" where
  "decodeURI s = Decode (lit '';/?:@&=+$,#'') s"

section \<open>The platform: what lib/bpUtil.js requires\<close>

text \<open>
  The module reads only \<open>host\<close> and \<open>path\<close> of the \<open>nsIURI\<close> it is given.
\<close>

record nsIURI =
  host :: jsstring
  path :: jsstring

text \<open>
  The services the module obtains from the platform, none of which is code of the
  module, are parameters of the model:
  \<^item> the two calls of \<open>nsIEffectiveTLDService\<close>, which may throw;
  \<open>querystring.parse\<close>, which may throw as well and returns some JavaScript value;
  \<^item> \<open>nsIScriptableUnicodeConverter.convertToByteArray\<close> with charset UTF-8, and
  \<open>nsICryptoHash\<close> initialised for SHA256, fed the whole byte array and finished
  with \<open>finish(false)\<close>, which gives the digest as a binary string. The source has no
  handler around these two and they are taken to return;
  \<^item> the lower-case table for code units outside ASCII.
\<close>

record platform =
  eTLDService_getBaseDomainFromHost :: "jsstring \<Rightarrow> exn + jsstring"
  eTLDService_getPublicSuffix :: "nsIURI \<Rightarrow> exn + jsstring"
  querystring_parse :: "jsstring \<Rightarrow> exn + jsval"
  converter_convertToByteArray :: "jsstring \<Rightarrow> 8 word list"
  cryptoHash_SHA256 :: "8 word list \<Rightarrow> jsstring"
  unicodeLower :: "jschar \<Rightarrow> jsstring"

text \<open>
  A call of a function of the module ends with a value or with an exception, and leaves
  the lines it gave to \<open>console.log\<close>, each the list of the arguments of one call.
\<close>

type_synonym console = "jsstring list list"
type_synonym 'a js = "(exn + 'a) \<times> console"

definition js_return :: "'a \<Rightarrow> 'a js" where
  "js_return x = (Inr x, [])"

definition js_throw :: "exn \<Rightarrow> 'a js" where
  "js_throw e = (Inl e, [])"

definition js_call :: "exn + 'a \<Rightarrow> 'a js" where
  "js_call r = (r, [])"

definition console_log :: "jsstring list \<Rightarrow> unit js" where
  "console_log args = (Inr (), [args])"

definition js_bind :: "'a js \<Rightarrow> ('a \<Rightarrow> 'b js) \<Rightarrow> 'b js" where
  "js_bind m f =
     (case m of
        (Inl e, out) \<Rightarrow> (Inl e, out)
      | (Inr x, out) \<Rightarrow> (case f x of (r, out') \<Rightarrow> (r, out @ out')))"

section \<open>lib/bpUtil.js\<close>

subsection \<open>getBaseDomainFromHost and getPublicSuffix\<close>

text \<open>
  \<open>let etld = aHost; try { etld = eTLDService.getBaseDomainFromHost(aHost); }
  catch (e) { console.log(...); } return etld;\<close>
\<close>

definition getBaseDomainFromHost :: "platform \<Rightarrow> jsstring \<Rightarrow> jsstring js" where
  "getBaseDomainFromHost env aHost =
     (case eTLDService_getBaseDomainFromHost env aHost of
        Inr etld \<Rightarrow> js_return etld
      | Inl e \<Rightarrow>
          js_bind (console_log [lit ''eTLDService error getting tld from'', aHost])
            (\<lambda>_. js_return aHost))"

definition getPublicSuffix :: "platform \<Rightarrow> nsIURI \<Rightarrow> jsstring js" where
  "getPublicSuffix env aURI =
     (case eTLDService_getPublicSuffix env aURI of
        Inr suffix' \<Rightarrow> js_return suffix'
      | Inl e \<Rightarrow>
          js_bind (console_log [lit ''eTLDService error: '' @ exnToString e])
            (\<lambda>_. js_return (host aURI)))"

subsection \<open>searchMap\<close>

record entry =
  entry_path :: jsstring
  entry_query :: jsstring

definition searchMap :: "(jsstring \<times> entry) list" where
  "searchMap =
     [(lit ''amazon'',
         \<lparr>entry_path = lit ''/exec/obidos/external-search?'',
          entry_query = lit ''field-keywords''\<rparr>),
      (lit ''bing'', \<lparr>entry_path = lit ''/search?'', entry_query = lit ''q''\<rparr>),
      (lit ''google'', \<lparr>entry_path = lit ''/search?'', entry_query = lit ''q''\<rparr>),
      (lit ''yahoo'', \<lparr>entry_path = lit ''/search?'', entry_query = lit ''p''\<rparr>)]"

text \<open>
  \<open>searchMap\<close> is an object literal, so \<open>searchMap[name]\<close> also finds what
  \<open>Object.prototype\<close> has under \<open>name\<close>: the ES5 properties and those SpiderMonkey adds.
  Each of them is a function or an object, hence truthy, and has no \<open>path\<close>.
\<close>

definition objectPrototype :: "jsstring list" where
  "objectPrototype =
     map lit
       [''constructor'', ''toString'', ''toLocaleString'', ''valueOf'', ''hasOwnProperty'',
        ''isPrototypeOf'', ''propertyIsEnumerable'', ''toSource'', ''watch'', ''unwatch'',
        ''__defineGetter__'', ''__defineSetter__'', ''__lookupGetter__'',
        ''__lookupSetter__'', ''__proto__'']"

datatype 'a property = Own 'a | Inherited | Absent

definition propertyOf :: "(jsstring \<times> entry) list \<Rightarrow> jsstring \<Rightarrow> entry property" where
  "propertyOf object name =
     (case map_of object name of
        Some e \<Rightarrow> Own e
      | None \<Rightarrow> if name \<in> set objectPrototype then Inherited else Absent)"

definition searchMapGet :: "jsstring \<Rightarrow> entry property" where
  "searchMapGet name = propertyOf searchMap name"

text \<open>
  \<open>searchMap\<close> is a variable of the module and the object it holds is mutable, so its
  value is part of the state of the module: every call of a function of the module
  takes the state and gives it back. \<open>loaded\<close> is the state once lines 51 to 57 have run.
\<close>

record moduleState =
  searchMap_var :: "(jsstring \<times> entry) list"

definition loaded :: moduleState where
  "loaded = \<lparr>searchMap_var = searchMap\<rparr>"

subsection \<open>getSearchTermFromURI\<close>

text \<open>Line 72: \<open>host.substr(0, host.length - publicSuffix.length - 1)\<close>.\<close>

definition searchProviderOf :: "jsstring \<Rightarrow> jsstring \<Rightarrow> jsstring" where
  "searchProviderOf host' publicSuffix =
     substr host' 0 (Some (int (length host') - int (length publicSuffix) - 1))"

text \<open>
  The branches follow the source line by line. Under a name inherited from
  \<open>Object.prototype\<close> the test of line 73 passes, \<open>searchMap[searchProvider].path\<close> is
  \<open>undefined\<close>, line 77 searches the path for the string \<open>"undefined"\<close>, and line 82
  throws on \<open>undefined.length\<close>. Lines 73, 77, 82 and 88 read \<open>searchMap\<close> from the
  state; no statement of the function assigns to it or to one of its entries, and no
  entry is handed out, so the state comes back as it was taken.
\<close>

definition getSearchTermFromURI_on ::
  "moduleState \<Rightarrow> platform \<Rightarrow> nsIURI \<Rightarrow> jsstring js \<times> moduleState" where
  "getSearchTermFromURI_on st env aURI =
    (js_bind (getBaseDomainFromHost env (host aURI)) (\<lambda>host'.
     js_bind (getPublicSuffix env aURI) (\<lambda>publicSuffix.
       if indexOf host' publicSuffix = - 1 then js_return []
       else
         (case propertyOf (searchMap_var st) (searchProviderOf host' publicSuffix) of
            Absent \<Rightarrow> js_return []
          | Inherited \<Rightarrow>
              if indexOf (path aURI) (lit ''undefined'') \<noteq> 0 then js_return []
              else js_throw TypeError
          | Own provider \<Rightarrow>
              if indexOf (path aURI) (entry_path provider) \<noteq> 0 then js_return []
              else
                js_bind
                  (js_call (querystring_parse env
                     (substr (path aURI) (int (length (entry_path provider))) None)))
                  (\<lambda>q.
                     if \<not> ToBoolean q then
                       js_bind (console_log [lit ''Couldn't parse'', path aURI])
                         (\<lambda>_. js_return [])
                     else
                       js_bind (js_call (getProp q (entry_query provider))) (\<lambda>v.
                       js_bind (js_call (decodeURI (ToString v))) (\<lambda>decoded.
                       js_return
                         (replaceFirst (toLowerCase (unicodeLower env) decoded)
                            (lit ''+'') (lit '' '')))))))),
     st)"

text \<open>The function as the module exports it, called in the state \<open>loaded\<close>.\<close>

definition getSearchTermFromURI :: "platform \<Rightarrow> nsIURI \<Rightarrow> jsstring js" where
  "getSearchTermFromURI env aURI = fst (getSearchTermFromURI_on loaded env aURI)"

subsection \<open>getHash, getKeyForHost, getKeyForQuery\<close>

text \<open>\<open>("0" + charCode.toString(16)).slice(-2)\<close>\<close>

definition toHexString :: "nat \<Rightarrow> jsstring" where
  "toHexString charCode = slice (lit ''0'' @ toString16 charCode) (- 2) None"

text \<open>
  The comprehension \<open>[toHexString(hash.charCodeAt(i)) for (i in hash)]\<close> visits the
  indices of the digest string in order; \<open>join("")\<close> concatenates.
\<close>

definition getHash :: "platform \<Rightarrow> jsstring \<Rightarrow> jsstring" where
  "getHash env aString =
     (let data = converter_convertToByteArray env aString;
          hash = cryptoHash_SHA256 env data;
          hashStr = concat (map (\<lambda>c. toHexString (unat c)) hash)
      in slice hashStr 0 (Some 48))"

definition getKeyForHost :: "platform \<Rightarrow> jsstring \<Rightarrow> jsstring js" where
  "getKeyForHost env aHost =
     js_bind (getBaseDomainFromHost env aHost) (\<lambda>baseDomain. js_return (getHash env baseDomain))"

definition getKeyForQuery :: "platform \<Rightarrow> jsstring \<Rightarrow> jsstring" where
  "getKeyForQuery env aQuery = getHash env aQuery"

subsection \<open>The exports\<close>

text \<open>
  Lines 125 to 128 export four functions; a client of the module can do nothing but
  call them, \<open>searchMap\<close> itself is not exported. \<open>getBaseDomainFromHost\<close>,
  \<open>getKeyForHost\<close> and \<open>getKeyForQuery\<close> (with \<open>getHash\<close> and \<open>getPublicSuffix\<close>, which they
  and \<open>getSearchTermFromURI\<close> call) do not mention \<open>searchMap\<close>.
\<close>

datatype call =
    Call_getSearchTermFromURI nsIURI
  | Call_getBaseDomainFromHost jsstring
  | Call_getKeyForHost jsstring
  | Call_getKeyForQuery jsstring

fun exports :: "platform \<Rightarrow> call \<Rightarrow> moduleState \<Rightarrow> jsstring js \<times> moduleState" where
  "exports env (Call_getSearchTermFromURI aURI) st = getSearchTermFromURI_on st env aURI"
| "exports env (Call_getBaseDomainFromHost aHost) st = (getBaseDomainFromHost env aHost, st)"
| "exports env (Call_getKeyForHost aHost) st = (getKeyForHost env aHost, st)"
| "exports env (Call_getKeyForQuery aQuery) st = (js_return (getKeyForQuery env aQuery), st)"

text \<open>The state of the module after a sequence of calls.\<close>

fun afterCalls :: "platform \<Rightarrow> call list \<Rightarrow> moduleState \<Rightarrow> moduleState" where
  "afterCalls env [] st = st"
| "afterCalls env (c # cs) st = afterCalls env cs (snd (exports env c st))"

section \<open>A test platform\<close>

text \<open>
  A platform with a few canned answers, on which the theorems below are run.
  The effective-TLD stub knows \<open>www.google.com\<close> and \<open>google.com\<close>; for the host
  written in katakana it refuses the base domain (the host is itself a suffix) and
  answers the suffix in its ASCII form; every other host, the empty one included, makes
  both calls throw. The parser stub knows four query strings. The converter stub is
  right for ASCII, and the hash stub knows the SHA-256 digests of the bytes of
  \<open>google.com\<close> and of \<open>www.google.com\<close> and gives no digest for any other input.
\<close>

definition testPlatform :: platform where
  "testPlatform =
     \<lparr>eTLDService_getBaseDomainFromHost =
        (\<lambda>h. if h = lit ''www.google.com'' \<or> h = lit ''google.com''
             then Inr (lit ''google.com'')
             else if h = [0x30C6, 0x30B9, 0x30C8]
             then Inl (ServiceFailure (lit ''NS_ERROR_INSUFFICIENT_DOMAIN_LEVELS''))
             else Inl (ServiceFailure (lit ''NS_ERROR_FAILURE''))),
      eTLDService_getPublicSuffix =
        (\<lambda>u. if host u = lit ''www.google.com'' \<or> host u = lit ''google.com''
             then Inr (lit ''com'')
             else if host u = [0x30C6, 0x30B9, 0x30C8] then Inr (lit ''xn--zckzah'')
             else Inl (ServiceFailure (lit ''NS_ERROR_FAILURE''))),
      querystring_parse =
        (\<lambda>s. if s = lit ''q=hello+world''
             then Inr (JSObject [(lit ''q'', JSString (lit ''hello+world''))])
             else if s = lit ''q=A+b+C''
             then Inr (JSObject [(lit ''q'', JSString (lit ''A+b+C''))])
             else if s = lit ''q=test''
             then Inr (JSObject [(lit ''q'', JSString (lit ''test''))])
             else if s = [] then Inr (JSObject [])
             else Inl (ServiceFailure (lit ''unexpected query string''))),
      converter_convertToByteArray = map ucast,
      cryptoHash_SHA256 =
        (\<lambda>d. if d = map of_char ''google.com''
             then [0xd4, 0xc9, 0xd9, 0x02, 0x73, 0x26, 0x27, 0x1a, 0x89, 0xce, 0x51, 0xfc,
                   0xaf, 0x32, 0x8e, 0xd6, 0x73, 0xf1, 0x7b, 0xe3, 0x34, 0x69, 0xff, 0x97,
                   0x9e, 0x8a, 0xb8, 0xdd, 0x50, 0x1e, 0x66, 0x4f]
             else if d = map of_char ''www.google.com''
             then [0x19, 0x13, 0x47, 0xbf, 0xe5, 0x5d, 0x0c, 0xa9, 0xa5, 0x74, 0xdb, 0x77,
                   0xbc, 0x86, 0x48, 0x27, 0x5c, 0xe2, 0x58, 0x46, 0x14, 0x50, 0xe7, 0x93,
                   0x52, 0x8e, 0x0c, 0xc6, 0xd2, 0xdc, 0xf8, 0xf5]
             else []),
      unicodeLower = (\<lambda>c. [c])\<rparr>"

section \<open>Facts about the built-ins\<close>

lemma indexOfFrom_shift:
  "indexOfFrom k s pat = (if indexOfFrom 0 s pat < 0 then - 1 else int k + indexOfFrom 0 s pat)"
proof (induction s arbitrary: k)
  case Nil
  show ?case by simp
next
  case (Cons c cs)
  show ?case
  proof (cases "prefix pat (c # cs)")
    case True
    then show ?thesis by simp
  next
    case False
    have a: "indexOfFrom (Suc k) cs pat =
        (if indexOfFrom 0 cs pat < 0 then - 1 else int (Suc k) + indexOfFrom 0 cs pat)"
      by (rule Cons.IH)
    have b: "indexOfFrom (Suc 0) cs pat =
        (if indexOfFrom 0 cs pat < 0 then - 1 else int (Suc 0) + indexOfFrom 0 cs pat)"
      by (rule Cons.IH)
    have c: "indexOfFrom 0 cs pat < 0 \<or> 0 \<le> indexOfFrom 0 cs pat" by linarith
    from False a b c show ?thesis by auto
  qed
qed

lemma indexOfFrom_range: "indexOfFrom k s pat = - 1 \<or> int k \<le> indexOfFrom k s pat"
  by (induction s arbitrary: k) (auto, force)

lemma indexOfFrom_sublist: "indexOfFrom k s pat = - 1 \<longleftrightarrow> \<not> sublist pat s"
proof (induction s arbitrary: k)
  case Nil
  show ?case by auto
next
  case (Cons c cs)
  show ?case
  proof (cases "prefix pat (c # cs)")
    case True
    then show ?thesis by (auto simp: sublist_Cons_right)
  next
    case False
    with Cons.IH [of "Suc k"] show ?thesis by (simp add: sublist_Cons_right)
  qed
qed

lemma indexOf_sublist: "indexOf s pat = - 1 \<longleftrightarrow> \<not> sublist pat s"
  by (simp add: indexOf_def indexOfFrom_sublist)

lemma indexOf_prefix: "indexOf s pat = 0 \<longleftrightarrow> prefix pat s"
proof (cases s)
  case Nil
  then show ?thesis by (simp add: indexOf_def)
next
  case (Cons c cs)
  show ?thesis
  proof (cases "prefix pat (c # cs)")
    case True
    with Cons show ?thesis by (simp add: indexOf_def)
  next
    case False
    from indexOfFrom_range [of "Suc 0" cs pat] have "indexOfFrom (Suc 0) cs pat \<noteq> 0" by auto
    with False Cons show ?thesis by (simp add: indexOf_def)
  qed
qed

lemma substr_drop: "substr s (int n) None = drop n s"
  by (simp add: substr_def Let_def)

lemma replaceFirst_Cons_hit: "replaceFirst (c # cs) [c] rep = rep @ cs"
  by (simp add: replaceFirst_def indexOf_def)

lemma replaceFirst_Cons_miss:
  assumes "c \<noteq> p"
  shows "replaceFirst (c # cs) [p] rep = c # replaceFirst cs [p] rep"
proof -
  have "indexOfFrom (Suc 0) cs [p] =
      (if indexOfFrom 0 cs [p] < 0 then - 1 else int (Suc 0) + indexOfFrom 0 cs [p])"
    by (rule indexOfFrom_shift)
  moreover have "indexOfFrom 0 cs [p] = - 1 \<or> 0 \<le> indexOfFrom 0 cs [p]"
    using indexOfFrom_range [of 0 cs "[p]"] by simp
  ultimately show ?thesis using assms
    by (auto simp: replaceFirst_def indexOf_def Let_def nat_add_distrib)
qed

text \<open>
  Replacing a one-character pattern: what stands before its first occurrence and what
  stands after it are kept, later occurrences included.
\<close>

lemma replaceFirst_char:
  "replaceFirst l [p] [r] =
     (if p \<in> set l then takeWhile (\<lambda>c. c \<noteq> p) l @ r # tl (dropWhile (\<lambda>c. c \<noteq> p) l) else l)"
proof (induction l)
  case Nil
  show ?case by (simp add: replaceFirst_def indexOf_def)
next
  case (Cons c cs)
  show ?case
  proof (cases "c = p")
    case True
    then show ?thesis by (simp add: replaceFirst_Cons_hit)
  next
    case False
    with Cons show ?thesis by (simp add: replaceFirst_Cons_miss)
  qed
qed

lemma normalise_undefined:
  "decodeURI (lit ''undefined'') = Inr (lit ''undefined'')"
  "replaceFirst (toLowerCase f (lit ''undefined'')) (lit ''+'') (lit '' '') = lit ''undefined''"
  by (simp_all add: decodeURI_def lit_def andThen_def toLowerCase_def replaceFirst_def indexOf_def)

subsection \<open>Hexadecimal digits\<close>

declare toString16.simps [simp del]

lemma hexDigit_lower:
  assumes "d < 16"
  shows "hexDigit d \<in> set (lit ''0123456789abcdef'')"
proof -
  from assms have "d = 0 \<or> d = 1 \<or> d = 2 \<or> d = 3 \<or> d = 4 \<or> d = 5 \<or> d = 6 \<or> d = 7 \<or>
      d = 8 \<or> d = 9 \<or> d = 10 \<or> d = 11 \<or> d = 12 \<or> d = 13 \<or> d = 14 \<or> d = 15"
    by arith
  then show ?thesis by (auto simp: hexDigit_def lit_def)
qed

lemma toString16_nonempty: "toString16 n \<noteq> []"
  by (subst toString16.simps) simp

lemma toString16_lower: "set (toString16 n) \<subseteq> set (lit ''0123456789abcdef'')"
proof (induction n rule: toString16.induct)
  case (1 n)
  show ?case
  proof (cases "n < 16")
    case True
    then show ?thesis by (subst toString16.simps) (simp add: hexDigit_lower)
  next
    case False
    have "n mod 16 < 16" by simp
    then have "hexDigit (n mod 16) \<in> set (lit ''0123456789abcdef'')" by (rule hexDigit_lower)
    with False "1.IH" show ?thesis by (subst toString16.simps) simp
  qed
qed

section \<open>Facts about the outcome of a call\<close>

lemma js_bind_return [simp]: "js_bind (js_return x) f = f x"
  by (cases "f x") (simp add: js_bind_def js_return_def)

lemma js_bind_call_Inr [simp]: "js_bind (js_call (Inr x)) f = f x"
  by (cases "f x") (simp add: js_bind_def js_call_def)

lemma js_bind_call_Inl [simp]: "js_bind (js_call (Inl e)) f = js_throw e"
  by (simp add: js_bind_def js_call_def js_throw_def)

lemma fst_js_bind:
  "fst (js_bind m f) = (case fst m of Inl e \<Rightarrow> Inl e | Inr x \<Rightarrow> fst (f x))"
  by (cases m; cases "fst m") (auto simp: js_bind_def split: prod.splits)

lemma snd_js_bind:
  "snd (js_bind m f) = (case fst m of Inl e \<Rightarrow> snd m | Inr x \<Rightarrow> snd m @ snd (f x))"
  by (cases m; cases "fst m") (auto simp: js_bind_def split: prod.splits)

lemma fst_js_return [simp]: "fst (js_return x) = Inr x"
  by (simp add: js_return_def)

lemma fst_js_throw [simp]: "fst (js_throw e) = Inl e"
  by (simp add: js_throw_def)

lemma fst_getBaseDomainFromHost:
  "fst (getBaseDomainFromHost env aHost) =
     Inr (case eTLDService_getBaseDomainFromHost env aHost of Inr d \<Rightarrow> d | Inl e \<Rightarrow> aHost)"
  by (simp add: getBaseDomainFromHost_def fst_js_bind console_log_def split: sum.splits)

lemma fst_getPublicSuffix:
  "fst (getPublicSuffix env aURI) =
     Inr (case eTLDService_getPublicSuffix env aURI of Inr d \<Rightarrow> d | Inl e \<Rightarrow> host aURI)"
  by (simp add: getPublicSuffix_def fst_js_bind console_log_def split: sum.splits)

text \<open>
  With the base domain \<open>h\<close> and the public suffix \<open>s\<close> resolved, the value of
  \<open>getSearchTermFromURI\<close> is that of lines 68 to 89.
\<close>

lemma searchTerm_unfold:
  assumes "fst (getBaseDomainFromHost env (host aURI)) = Inr h"
    and "fst (getPublicSuffix env aURI) = Inr s"
  shows "fst (getSearchTermFromURI env aURI) =
     fst (if indexOf h s = - 1 then js_return []
       else
         (case searchMapGet (searchProviderOf h s) of
            Absent \<Rightarrow> js_return []
          | Inherited \<Rightarrow>
              if indexOf (path aURI) (lit ''undefined'') \<noteq> 0 then js_return []
              else js_throw TypeError
          | Own provider \<Rightarrow>
              if indexOf (path aURI) (entry_path provider) \<noteq> 0 then js_return []
              else
                js_bind
                  (js_call (querystring_parse env
                     (substr (path aURI) (int (length (entry_path provider))) None)))
                  (\<lambda>q.
                     if \<not> ToBoolean q then
                       js_bind (console_log [lit ''Couldn't parse'', path aURI])
                         (\<lambda>_. js_return [])
                     else
                       js_bind (js_call (getProp q (entry_query provider))) (\<lambda>v.
                       js_bind (js_call (decodeURI (ToString v))) (\<lambda>decoded.
                       js_return
                         (replaceFirst (toLowerCase (unicodeLower env) decoded)
                            (lit ''+'') (lit '' '')))))))"
  using assms
  by (simp add: getSearchTermFromURI_def getSearchTermFromURI_on_def loaded_def
      searchMapGet_def fst_js_bind)

lemma searchProviderOf_same: "searchProviderOf h h = []"
  by (simp add: searchProviderOf_def substr_def Let_def)

lemma searchMapGet_empty: "searchMapGet [] = Absent"
  by (simp add: searchMapGet_def propertyOf_def searchMap_def objectPrototype_def lit_def)

section \<open>The domain resolution wrappers\<close>

text \<open>
  C2. \<open>getBaseDomainFromHost\<close> and \<open>getPublicSuffix\<close> end with a value for every
  platform and every input, the empty host included: they never end with an exception.
  When the service call throws, the value is the input itself, the host for
  \<open>getBaseDomainFromHost\<close> and \<open>aURI.host\<close> for \<open>getPublicSuffix\<close>.
\<close>

theorem eTLD_wrappers_never_raise:
  "(\<exists>d. fst (getBaseDomainFromHost env aHost) = Inr d) \<and>
   (\<exists>s. fst (getPublicSuffix env aURI) = Inr s) \<and>
   (\<forall>e. eTLDService_getBaseDomainFromHost env aHost = Inl e \<longrightarrow>
      fst (getBaseDomainFromHost env aHost) = Inr aHost) \<and>
   (\<forall>e. eTLDService_getPublicSuffix env aURI = Inl e \<longrightarrow>
      fst (getPublicSuffix env aURI) = Inr (host aURI))"
  by (simp add: fst_getBaseDomainFromHost fst_getPublicSuffix)

theorem eTLD_wrappers_never_raise_witness:
  "eTLDService_getBaseDomainFromHost testPlatform [] =
     Inl (ServiceFailure (lit ''NS_ERROR_FAILURE'')) \<and>
   eTLDService_getPublicSuffix testPlatform \<lparr>host = [], path = lit ''/''\<rparr> =
     Inl (ServiceFailure (lit ''NS_ERROR_FAILURE'')) \<and>
   fst (getBaseDomainFromHost testPlatform []) = Inr [] \<and>
   fst (getPublicSuffix testPlatform \<lparr>host = [], path = lit ''/''\<rparr>) = Inr []"
  using eTLD_wrappers_never_raise
    [of testPlatform "[]" "\<lparr>host = [], path = lit ''/''\<rparr>"]
  by (simp add: testPlatform_def lit_def)

section \<open>getSearchTermFromURI: the branches that give the empty string\<close>

text \<open>
  C5. When the public suffix resolved for the URI does not occur anywhere in the base
  domain resolved for its host, \<open>getSearchTermFromURI\<close> returns the empty string.
\<close>

theorem suffix_not_in_host_gives_empty:
  assumes "fst (getBaseDomainFromHost env (host aURI)) = Inr h"
    and "fst (getPublicSuffix env aURI) = Inr s"
    and "\<not> sublist s h"
  shows "fst (getSearchTermFromURI env aURI) = Inr []"
  using assms(3) by (simp add: searchTerm_unfold [OF assms(1,2)] indexOf_sublist)

theorem suffix_not_in_host_gives_empty_witness:
  "fst (getBaseDomainFromHost testPlatform [0x30C6, 0x30B9, 0x30C8]) =
     Inr [0x30C6, 0x30B9, 0x30C8] \<and>
   fst (getPublicSuffix testPlatform
     \<lparr>host = [0x30C6, 0x30B9, 0x30C8], path = lit ''/search?q=test''\<rparr>) =
     Inr (lit ''xn--zckzah'') \<and>
   \<not> sublist (lit ''xn--zckzah'') [0x30C6, 0x30B9, 0x30C8 :: jschar] \<and>
   fst (getSearchTermFromURI testPlatform
     \<lparr>host = [0x30C6, 0x30B9, 0x30C8], path = lit ''/search?q=test''\<rparr>) = Inr []"
proof -
  let ?u = "\<lparr>host = [0x30C6, 0x30B9, 0x30C8], path = lit ''/search?q=test''\<rparr>"
  have a: "fst (getBaseDomainFromHost testPlatform (host ?u)) = Inr [0x30C6, 0x30B9, 0x30C8]"
    by (simp add: fst_getBaseDomainFromHost testPlatform_def lit_def)
  have b: "fst (getPublicSuffix testPlatform ?u) = Inr (lit ''xn--zckzah'')"
    by (simp add: fst_getPublicSuffix testPlatform_def lit_def)
  have c: "\<not> sublist (lit ''xn--zckzah'') [0x30C6, 0x30B9, 0x30C8 :: jschar]"
    by (simp add: lit_def sublist_Cons_right)
  from suffix_not_in_host_gives_empty [OF a b c] a b c show ?thesis by simp
qed

text \<open>
  C6. When the base domain and the public suffix resolve to the same string, the
  provider name of line 72 is the empty string, \<open>searchMap\<close> has nothing under it, and
  \<open>getSearchTermFromURI\<close> returns the empty string.
\<close>

theorem host_equal_suffix_gives_empty:
  assumes "fst (getBaseDomainFromHost env (host aURI)) = Inr h"
    and "fst (getPublicSuffix env aURI) = Inr h"
  shows "searchProviderOf h h = [] \<and> searchMapGet (searchProviderOf h h) = Absent \<and>
     fst (getSearchTermFromURI env aURI) = Inr []"
  by (simp add: searchTerm_unfold [OF assms] searchProviderOf_same searchMapGet_empty)

theorem host_equal_suffix_gives_empty_witness:
  "fst (getBaseDomainFromHost testPlatform (lit ''example.org'')) = Inr (lit ''example.org'') \<and>
   fst (getPublicSuffix testPlatform
     \<lparr>host = lit ''example.org'', path = lit ''/search?q=test''\<rparr>) =
     Inr (lit ''example.org'') \<and>
   fst (getSearchTermFromURI testPlatform
     \<lparr>host = lit ''example.org'', path = lit ''/search?q=test''\<rparr>) = Inr []"
proof -
  let ?u = "\<lparr>host = lit ''example.org'', path = lit ''/search?q=test''\<rparr>"
  have a: "fst (getBaseDomainFromHost testPlatform (host ?u)) = Inr (lit ''example.org'')"
    by (simp add: fst_getBaseDomainFromHost testPlatform_def lit_def)
  have b: "fst (getPublicSuffix testPlatform ?u) = Inr (lit ''example.org'')"
    by (simp add: fst_getPublicSuffix testPlatform_def lit_def)
  from host_equal_suffix_gives_empty [OF a b] a b show ?thesis by simp
qed

text \<open>
  C7. When the provider name is one of the four of \<open>searchMap\<close> and the path of the URI
  does not start with the path of that provider, \<open>getSearchTermFromURI\<close> returns the
  empty string.
\<close>

theorem path_mismatch_gives_empty:
  assumes "fst (getBaseDomainFromHost env (host aURI)) = Inr h"
    and "fst (getPublicSuffix env aURI) = Inr s"
    and "map_of searchMap (searchProviderOf h s) = Some provider"
    and "\<not> prefix (entry_path provider) (path aURI)"
  shows "fst (getSearchTermFromURI env aURI) = Inr []"
  using assms(3,4)
  by (simp add: searchTerm_unfold [OF assms(1,2)] searchMapGet_def propertyOf_def
      indexOf_prefix)

theorem path_mismatch_gives_empty_witness:
  "fst (getBaseDomainFromHost testPlatform (lit ''www.google.com'')) = Inr (lit ''google.com'') \<and>
   fst (getPublicSuffix testPlatform
     \<lparr>host = lit ''www.google.com'', path = lit ''/other?q=test''\<rparr>) = Inr (lit ''com'') \<and>
   map_of searchMap (searchProviderOf (lit ''google.com'') (lit ''com'')) =
     Some \<lparr>entry_path = lit ''/search?'', entry_query = lit ''q''\<rparr> \<and>
   \<not> prefix (lit ''/search?'') (lit ''/other?q=test'') \<and>
   fst (getSearchTermFromURI testPlatform
     \<lparr>host = lit ''www.google.com'', path = lit ''/other?q=test''\<rparr>) = Inr []"
proof -
  let ?u = "\<lparr>host = lit ''www.google.com'', path = lit ''/other?q=test''\<rparr>"
  let ?p = "\<lparr>entry_path = lit ''/search?'', entry_query = lit ''q''\<rparr>"
  have a: "fst (getBaseDomainFromHost testPlatform (host ?u)) = Inr (lit ''google.com'')"
    by (simp add: fst_getBaseDomainFromHost testPlatform_def lit_def)
  have b: "fst (getPublicSuffix testPlatform ?u) = Inr (lit ''com'')"
    by (simp add: fst_getPublicSuffix testPlatform_def lit_def)
  have c: "map_of searchMap (searchProviderOf (lit ''google.com'') (lit ''com'')) = Some ?p"
    by (simp add: searchMap_def searchProviderOf_def substr_def lit_def)
  have d: "\<not> prefix (entry_path ?p) (path ?u)"
    by (simp add: lit_def)
  from path_mismatch_gives_empty [OF a b c d] a b c d show ?thesis by simp
qed

section \<open>getSearchTermFromURI: the query value\<close>

text \<open>
  For a provider of \<open>searchMap\<close> whose path starts the path of the URI, and a parser that
  hands back an object, the value of \<open>getSearchTermFromURI\<close> is that of lines 88 and 89
  on the property read from the object.
\<close>

lemma searchTerm_parsed:
  assumes "fst (getBaseDomainFromHost env (host aURI)) = Inr h"
    and "fst (getPublicSuffix env aURI) = Inr s"
    and "sublist s h"
    and "map_of searchMap (searchProviderOf h s) = Some provider"
    and "prefix (entry_path provider) (path aURI)"
    and "querystring_parse env (drop (length (entry_path provider)) (path aURI)) =
           Inr (JSObject ps)"
  shows "fst (getSearchTermFromURI env aURI) =
     (case decodeURI (ToString (case map_of ps (entry_query provider) of
            None \<Rightarrow> JSUndefined | Some v \<Rightarrow> v)) of
        Inl e \<Rightarrow> Inl e
      | Inr decoded \<Rightarrow>
          Inr (replaceFirst (toLowerCase (unicodeLower env) decoded) (lit ''+'') (lit '' '')))"
  using assms(3-6)
  by (simp add: searchTerm_unfold [OF assms(1,2)] searchMapGet_def propertyOf_def
      indexOf_prefix indexOf_sublist substr_drop fst_js_bind js_call_def
      split: option.splits sum.splits)

text \<open>
  C1 says that \<open>getSearchTermFromURI\<close> returns the empty string when the parsed object
  has no property of the provider's parameter name. The code does not: the read gives
  \<open>undefined\<close>, \<open>decodeURI\<close> turns it into the string \<open>undefined\<close>, and that string is
  returned. The theorem states what the code returns; the second one runs it on
  host \<open>google.com\<close>, path \<open>/search?\<close>.
\<close>

theorem missing_param_gives_undefined:
  assumes "fst (getBaseDomainFromHost env (host aURI)) = Inr h"
    and "fst (getPublicSuffix env aURI) = Inr s"
    and "sublist s h"
    and "map_of searchMap (searchProviderOf h s) = Some provider"
    and "prefix (entry_path provider) (path aURI)"
    and "querystring_parse env (drop (length (entry_path provider)) (path aURI)) =
           Inr (JSObject ps)"
    and "map_of ps (entry_query provider) = None"
  shows "fst (getSearchTermFromURI env aURI) = Inr (lit ''undefined'')"
  using assms(7) by (simp add: searchTerm_parsed [OF assms(1-6)] normalise_undefined)

theorem missing_param_gives_undefined_witness:
  "fst (getBaseDomainFromHost testPlatform (lit ''google.com'')) = Inr (lit ''google.com'') \<and>
   fst (getPublicSuffix testPlatform \<lparr>host = lit ''google.com'', path = lit ''/search?''\<rparr>) =
     Inr (lit ''com'') \<and>
   sublist (lit ''com'') (lit ''google.com'') \<and>
   map_of searchMap (searchProviderOf (lit ''google.com'') (lit ''com'')) =
     Some \<lparr>entry_path = lit ''/search?'', entry_query = lit ''q''\<rparr> \<and>
   prefix (lit ''/search?'') (lit ''/search?'') \<and>
   querystring_parse testPlatform [] = Inr (JSObject []) \<and>
   fst (getSearchTermFromURI testPlatform \<lparr>host = lit ''google.com'', path = lit ''/search?''\<rparr>) =
     Inr (lit ''undefined'') \<and>
   lit ''undefined'' \<noteq> []"
proof -
  let ?u = "\<lparr>host = lit ''google.com'', path = lit ''/search?''\<rparr>"
  let ?p = "\<lparr>entry_path = lit ''/search?'', entry_query = lit ''q''\<rparr>"
  have a: "fst (getBaseDomainFromHost testPlatform (host ?u)) = Inr (lit ''google.com'')"
    by (simp add: fst_getBaseDomainFromHost testPlatform_def lit_def)
  have b: "fst (getPublicSuffix testPlatform ?u) = Inr (lit ''com'')"
    by (simp add: fst_getPublicSuffix testPlatform_def lit_def)
  have c: "sublist (lit ''com'') (lit ''google.com'')"
    by (simp add: lit_def sublist_Cons_right)
  have d: "map_of searchMap (searchProviderOf (lit ''google.com'') (lit ''com'')) = Some ?p"
    by (simp add: searchMap_def searchProviderOf_def substr_def lit_def)
  have e: "prefix (entry_path ?p) (path ?u)"
    by simp
  have f: "querystring_parse testPlatform (drop (length (entry_path ?p)) (path ?u)) =
      Inr (JSObject [])"
    by (simp add: testPlatform_def lit_def)
  have g: "map_of [] (entry_query ?p) = (None :: jsval option)"
    by simp
  have h: "querystring_parse testPlatform [] = Inr (JSObject [])"
    by (simp add: testPlatform_def lit_def)
  from missing_param_gives_undefined [OF a b c d e f g] a b c d h show ?thesis
    by (simp add: lit_def)
qed

text \<open>
  C4. When the parsed object has a string under the provider's parameter name and
  \<open>decodeURI\<close> accepts it, \<open>getSearchTermFromURI\<close> returns the decoded string in lower
  case with its first \<open>+\<close> (code unit 0x2B) replaced by a space (0x20): what stands
  before the first \<open>+\<close> and what stands after it are unchanged, so that any further
  \<open>+\<close> stays. Without a \<open>+\<close> the lower-cased string is returned as it is.
\<close>

theorem query_value_normalised:
  assumes "fst (getBaseDomainFromHost env (host aURI)) = Inr h"
    and "fst (getPublicSuffix env aURI) = Inr s"
    and "sublist s h"
    and "map_of searchMap (searchProviderOf h s) = Some provider"
    and "prefix (entry_path provider) (path aURI)"
    and "querystring_parse env (drop (length (entry_path provider)) (path aURI)) =
           Inr (JSObject ps)"
    and "map_of ps (entry_query provider) = Some (JSString v)"
    and "decodeURI v = Inr decoded"
    and "lowered = toLowerCase (unicodeLower env) decoded"
  shows "fst (getSearchTermFromURI env aURI) =
     Inr (if 0x2B \<in> set lowered
          then takeWhile (\<lambda>c. c \<noteq> 0x2B) lowered @ 0x20 # tl (dropWhile (\<lambda>c. c \<noteq> 0x2B) lowered)
          else lowered)"
  using assms(7-9)
  by (simp add: searchTerm_parsed [OF assms(1-6)] lit_def replaceFirst_char)

theorem query_value_normalised_witness:
  "fst (getSearchTermFromURI testPlatform
     \<lparr>host = lit ''www.google.com'', path = lit ''/search?q=hello+world''\<rparr>) =
     Inr (lit ''hello world'') \<and>
   fst (getSearchTermFromURI testPlatform
     \<lparr>host = lit ''www.google.com'', path = lit ''/search?q=A+b+C''\<rparr>) =
     Inr (lit ''a b+c'')"
proof -
  let ?u = "\<lparr>host = lit ''www.google.com'', path = lit ''/search?q=hello+world''\<rparr>"
  let ?w = "\<lparr>host = lit ''www.google.com'', path = lit ''/search?q=A+b+C''\<rparr>"
  let ?p = "\<lparr>entry_path = lit ''/search?'', entry_query = lit ''q''\<rparr>"
  have a: "fst (getBaseDomainFromHost testPlatform (host ?u)) = Inr (lit ''google.com'')"
    by (simp add: fst_getBaseDomainFromHost testPlatform_def lit_def)
  have b: "fst (getPublicSuffix testPlatform ?u) = Inr (lit ''com'')"
    by (simp add: fst_getPublicSuffix testPlatform_def lit_def)
  have a': "fst (getBaseDomainFromHost testPlatform (host ?w)) = Inr (lit ''google.com'')"
    by (simp add: fst_getBaseDomainFromHost testPlatform_def lit_def)
  have b': "fst (getPublicSuffix testPlatform ?w) = Inr (lit ''com'')"
    by (simp add: fst_getPublicSuffix testPlatform_def lit_def)
  have c: "sublist (lit ''com'') (lit ''google.com'')"
    by (simp add: lit_def sublist_Cons_right)
  have d: "map_of searchMap (searchProviderOf (lit ''google.com'') (lit ''com'')) = Some ?p"
    by (simp add: searchMap_def searchProviderOf_def substr_def lit_def)
  have e: "prefix (entry_path ?p) (path ?u)" "prefix (entry_path ?p) (path ?w)"
    by (simp_all add: lit_def)
  have f: "querystring_parse testPlatform (drop (length (entry_path ?p)) (path ?u)) =
      Inr (JSObject [(lit ''q'', JSString (lit ''hello+world''))])"
    by (simp add: testPlatform_def lit_def)
  have f': "querystring_parse testPlatform (drop (length (entry_path ?p)) (path ?w)) =
      Inr (JSObject [(lit ''q'', JSString (lit ''A+b+C''))])"
    by (simp add: testPlatform_def lit_def)
  have g: "map_of [(lit ''q'', JSString (lit ''hello+world''))] (entry_query ?p) =
      Some (JSString (lit ''hello+world''))"
    "map_of [(lit ''q'', JSString (lit ''A+b+C''))] (entry_query ?p) =
      Some (JSString (lit ''A+b+C''))"
    by simp_all
  have h: "decodeURI (lit ''hello+world'') = Inr (lit ''hello+world'')"
    "decodeURI (lit ''A+b+C'') = Inr (lit ''A+b+C'')"
    by (simp_all add: decodeURI_def lit_def andThen_def)
  have i: "lit ''hello+world'' = toLowerCase (unicodeLower testPlatform) (lit ''hello+world'')"
    "lit ''a+b+c'' = toLowerCase (unicodeLower testPlatform) (lit ''A+b+C'')"
    by (simp_all add: toLowerCase_def lit_def)
  from query_value_normalised [OF a b c d e(1) f g(1) h(1) i(1)]
    query_value_normalised [OF a' b' c d e(2) f' g(2) h(2) i(2)]
  show ?thesis by (simp add: lit_def)
qed

section \<open>getSearchTermFromURI: the guard of line 84 and the exceptions\<close>

lemma wrappers_log_nothing_on_parsing:
  "[lit ''Couldn't parse'', p] \<notin> set (snd (getBaseDomainFromHost env a))"
  "[lit ''Couldn't parse'', p] \<notin> set (snd (getPublicSuffix env u))"
  by (simp_all add: getBaseDomainFromHost_def getPublicSuffix_def snd_js_bind console_log_def
      js_return_def lit_def split: sum.splits)

text \<open>
  Once the parser has returned a value \<open>q\<close>, the line \<open>Couldn't parse\<close> is logged exactly
  when \<open>q\<close> is falsy. Whether \<open>querystring.parse\<close> ever returns such a value is a matter
  of that module, which the platform provides.
\<close>

lemma parse_failure_branch:
  assumes "fst (getBaseDomainFromHost env (host aURI)) = Inr h"
    and "fst (getPublicSuffix env aURI) = Inr s"
    and "sublist s h"
    and "map_of searchMap (searchProviderOf h s) = Some provider"
    and "prefix (entry_path provider) (path aURI)"
    and "querystring_parse env (drop (length (entry_path provider)) (path aURI)) = Inr q"
  shows "([lit ''Couldn't parse'', path aURI] \<in> set (snd (getSearchTermFromURI env aURI))) =
     (\<not> ToBoolean q)"
  using assms wrappers_log_nothing_on_parsing [of "path aURI" env]
  by (simp add: getSearchTermFromURI_def getSearchTermFromURI_on_def loaded_def snd_js_bind
      fst_js_bind propertyOf_def indexOf_prefix indexOf_sublist substr_drop js_call_def
      js_return_def js_throw_def console_log_def split: sum.splits)

text \<open>
  The function has no handler of its own: an exception of the parser, and the
  \<open>URIError\<close> of \<open>decodeURI\<close> on the value read, reach the caller.
\<close>

lemma parser_exception_propagates:
  assumes "fst (getBaseDomainFromHost env (host aURI)) = Inr h"
    and "fst (getPublicSuffix env aURI) = Inr s"
    and "sublist s h"
    and "map_of searchMap (searchProviderOf h s) = Some provider"
    and "prefix (entry_path provider) (path aURI)"
    and "querystring_parse env (drop (length (entry_path provider)) (path aURI)) = Inl e"
  shows "fst (getSearchTermFromURI env aURI) = Inl e"
  using assms(3-6)
  by (simp add: searchTerm_unfold [OF assms(1,2)] searchMapGet_def propertyOf_def
      indexOf_prefix indexOf_sublist substr_drop)

lemma decodeURI_exception_propagates:
  assumes "fst (getBaseDomainFromHost env (host aURI)) = Inr h"
    and "fst (getPublicSuffix env aURI) = Inr s"
    and "sublist s h"
    and "map_of searchMap (searchProviderOf h s) = Some provider"
    and "prefix (entry_path provider) (path aURI)"
    and "querystring_parse env (drop (length (entry_path provider)) (path aURI)) =
           Inr (JSObject ps)"
    and "map_of ps (entry_query provider) = Some (JSString v)"
    and "decodeURI v = Inl e"
  shows "fst (getSearchTermFromURI env aURI) = Inl e"
  using assms(7,8) by (simp add: searchTerm_parsed [OF assms(1-6)])

lemma decodeURI_lone_percent: "decodeURI (lit ''100%'') = Inl URIError"
  by (simp add: decodeURI_def lit_def andThen_def)

section \<open>The keys\<close>

lemma length_toHexString: "length (toHexString n) = 2"
proof -
  have "1 \<le> length (toString16 n)"
    using toString16_nonempty [of n] by (cases "toString16 n") simp_all
  then show ?thesis by (simp add: toHexString_def slice_def lit_def Let_def)
qed

lemma toHexString_lower: "set (toHexString n) \<subseteq> set (lit ''0123456789abcdef'')"
proof -
  have "set (toHexString n) \<subseteq> set (lit ''0'' @ toString16 n)"
    unfolding toHexString_def slice_def Let_def
    by (meson set_take_subset set_drop_subset subset_trans)
  also have "\<dots> \<subseteq> set (lit ''0123456789abcdef'')"
    using toString16_lower [of n] by (simp add: lit_def)
  finally show ?thesis .
qed

lemma length_hashStr: "length (concat (map (\<lambda>c. toHexString (f c)) hash)) = 2 * length hash"
  by (induction hash) (simp_all add: length_toHexString)

lemma hashStr_lower:
  "set (concat (map (\<lambda>c. toHexString (f c)) hash)) \<subseteq> set (lit ''0123456789abcdef'')"
  using toHexString_lower by auto

lemma slice_48: "slice s 0 (Some 48) = take 48 s"
  by (simp add: slice_def Let_def min_def)

lemma getHash_take:
  "getHash env aString =
     take 48 (concat (map (\<lambda>c. toHexString (unat c))
       (cryptoHash_SHA256 env (converter_convertToByteArray env aString))))"
  by (simp add: getHash_def Let_def slice_48)

lemma length_getHash:
  assumes "24 \<le> length (cryptoHash_SHA256 env (converter_convertToByteArray env aString))"
  shows "length (getHash env aString) = 48"
  using assms by (simp add: getHash_take length_hashStr)

lemma getHash_lower: "set (getHash env aString) \<subseteq> set (lit ''0123456789abcdef'')"
proof -
  have "set (getHash env aString) \<subseteq> set (concat (map (\<lambda>c. toHexString (unat c))
       (cryptoHash_SHA256 env (converter_convertToByteArray env aString))))"
    unfolding getHash_take by (rule set_take_subset)
  then show ?thesis using hashStr_lower by (rule subset_trans)
qed

text \<open>
  A code unit is rendered by its two low hexadecimal digits, the high one first; for a
  byte these are its two digits.
\<close>

lemma hexDigit_nth:
  assumes "d < 16"
  shows "hexDigit d = lit ''0123456789abcdef'' ! d"
proof -
  from assms have "d = 0 \<or> d = 1 \<or> d = 2 \<or> d = 3 \<or> d = 4 \<or> d = 5 \<or> d = 6 \<or> d = 7 \<or>
      d = 8 \<or> d = 9 \<or> d = 10 \<or> d = 11 \<or> d = 12 \<or> d = 13 \<or> d = 14 \<or> d = 15"
    by arith
  then show ?thesis by (auto simp: hexDigit_def lit_def)
qed

lemma last_toString16: "last (toString16 n) = hexDigit (n mod 16)"
  by (subst toString16.simps) simp

lemma drop_all_but_last:
  assumes "t \<noteq> []"
  shows "drop (length t) (a # t @ [x]) = [last t, x]"
proof -
  from assms have "a # t = (a # butlast t) @ [last t]" by simp
  then have "a # t @ [x] = (a # butlast t) @ [last t, x]" by simp
  moreover from assms have "length (a # butlast t) = length t" by (cases t) simp_all
  ultimately show ?thesis by (metis append_eq_conv_conj)
qed

lemma toHexString_digits:
  "toHexString n = [hexDigit (n div 16 mod 16), hexDigit (n mod 16)]"
proof (cases "n < 16")
  case True
  then have "toString16 n = [hexDigit n]" by (subst toString16.simps) simp
  with True show ?thesis by (simp add: toHexString_def slice_def lit_def hexDigit_def)
next
  case False
  let ?t = "toString16 (n div 16)"
  from False have t: "toString16 n = ?t @ [hexDigit (n mod 16)]"
    by (subst toString16.simps) simp
  have ne: "?t \<noteq> []" by (rule toString16_nonempty)
  have "toHexString n = drop (length ?t) (0x30 # ?t @ [hexDigit (n mod 16)])"
    by (simp add: toHexString_def slice_def lit_def Let_def t)
  also have "\<dots> = [last ?t, hexDigit (n mod 16)]" using ne by (rule drop_all_but_last)
  finally show ?thesis by (simp add: last_toString16)
qed

lemma toHexString_nth:
  "toHexString n =
     [lit ''0123456789abcdef'' ! (n div 16 mod 16), lit ''0123456789abcdef'' ! (n mod 16)]"
  by (simp add: toHexString_digits hexDigit_nth)

lemma take_concat_pairs:
  assumes "\<And>x. length (f x) = 2"
  shows "take (2 * k) (concat (map f xs)) = concat (map f (take k xs))"
proof (induction xs arbitrary: k)
  case Nil
  show ?case by simp
next
  case (Cons x xs)
  show ?case
  proof (cases k)
    case 0
    then show ?thesis by simp
  next
    case (Suc j)
    have "take (2 * Suc j) (f x @ concat (map f xs)) = f x @ take (2 * j) (concat (map f xs))"
      using assms [of x] by simp
    with Suc Cons.IH [of j] show ?thesis by simp
  qed
qed

text \<open>
  \<open>getHash\<close> is the first 24 code units of the digest that the hash service gives for the
  bytes of the string, each rendered by two characters of \<open>0123456789abcdef\<close>.
\<close>

lemma getHash_digest:
  "getHash env aString =
     concat (map (\<lambda>c. [lit ''0123456789abcdef'' ! (unat c div 16 mod 16),
                       lit ''0123456789abcdef'' ! (unat c mod 16)])
       (take 24 (cryptoHash_SHA256 env (converter_convertToByteArray env aString))))"
proof -
  have "take (2 * 24) (concat (map (\<lambda>c. toHexString (unat c))
          (cryptoHash_SHA256 env (converter_convertToByteArray env aString)))) =
        concat (map (\<lambda>c. toHexString (unat c))
          (take 24 (cryptoHash_SHA256 env (converter_convertToByteArray env aString))))"
    by (rule take_concat_pairs) (rule length_toHexString)
  then show ?thesis by (simp add: getHash_take toHexString_nth)
qed

lemma converter_testPlatform:
  "converter_convertToByteArray testPlatform (lit ''google.com'') = map of_char ''google.com''"
  "converter_convertToByteArray testPlatform (lit ''www.google.com'') =
     map of_char ''www.google.com''"
  by (simp_all add: testPlatform_def lit_def)

lemma getHash_testPlatform:
  "getHash testPlatform (lit ''google.com'') =
     lit ''d4c9d9027326271a89ce51fcaf328ed673f17be33469ff97''"
  "getHash testPlatform (lit ''www.google.com'') =
     lit ''191347bfe55d0ca9a574db77bc8648275ce258461450e793''"
   apply (simp_all only: getHash_digest converter_testPlatform)
   apply (simp_all add: testPlatform_def)
   apply (simp_all add: lit_def)
  done


text \<open>
  C3. For every host, \<open>getBaseDomainFromHost\<close> gives a base domain and \<open>getKeyForHost\<close>
  returns \<open>getHash\<close> of it: the first 24 code units of the digest that the hash service
  gives for the bytes of the base domain, each rendered by two characters of
  \<open>0123456789abcdef\<close>, high digit first. When that digest has at least 24 code units (a
  SHA-256 digest has 32) the key has exactly 48 characters.
\<close>

theorem keyForHost_hashes_baseDomain:
  "\<exists>d. fst (getBaseDomainFromHost env h) = Inr d \<and>
     fst (getKeyForHost env h) = Inr (getHash env d) \<and>
     getHash env d =
       concat (map (\<lambda>c. [lit ''0123456789abcdef'' ! (unat c div 16 mod 16),
                         lit ''0123456789abcdef'' ! (unat c mod 16)])
         (take 24 (cryptoHash_SHA256 env (converter_convertToByteArray env d)))) \<and>
     (24 \<le> length (cryptoHash_SHA256 env (converter_convertToByteArray env d)) \<longrightarrow>
        length (getHash env d) = 48) \<and>
     set (getHash env d) \<subseteq> set (lit ''0123456789abcdef'')"
proof -
  obtain d where d: "fst (getBaseDomainFromHost env h) = Inr d"
    by (simp add: fst_getBaseDomainFromHost)
  then have "fst (getKeyForHost env h) = Inr (getHash env d)"
    by (simp add: getKeyForHost_def fst_js_bind)
  with d show ?thesis
    using getHash_digest [of env d] length_getHash [of env d] getHash_lower [of env d]
    by blast
qed

theorem keyForHost_hashes_baseDomain_witness:
  "24 \<le> length (cryptoHash_SHA256 testPlatform
     (converter_convertToByteArray testPlatform (lit ''google.com''))) \<and>
   fst (getBaseDomainFromHost testPlatform (lit ''www.google.com'')) = Inr (lit ''google.com'') \<and>
   fst (getKeyForHost testPlatform (lit ''www.google.com'')) =
     Inr (lit ''d4c9d9027326271a89ce51fcaf328ed673f17be33469ff97'') \<and>
   length (lit ''d4c9d9027326271a89ce51fcaf328ed673f17be33469ff97'') = 48"
proof -
  have a: "24 \<le> length (cryptoHash_SHA256 testPlatform
      (converter_convertToByteArray testPlatform (lit ''google.com'')))"
    by (simp only: converter_testPlatform) (simp add: testPlatform_def)
  have b: "fst (getBaseDomainFromHost testPlatform (lit ''www.google.com'')) =
      Inr (lit ''google.com'')"
    by (simp add: fst_getBaseDomainFromHost testPlatform_def lit_def)
  from keyForHost_hashes_baseDomain [of testPlatform "lit ''www.google.com''"] a b
  show ?thesis by (auto simp: getHash_testPlatform)
qed

text \<open>
  C8. \<open>getKeyForQuery\<close> returns the first 24 code units of the digest that the hash
  service gives for the bytes of the query itself, in lowercase hexadecimal: the bytes
  hashed are those of the query, with nothing added and no base domain taken. Two runs
  are two calls, each on the platform as it is at that time, \<open>env\<close> and \<open>env'\<close>. Whatever
  else differs between the two platforms, when the converter and the hash service answer
  this query alike, the two keys are equal. When the digest has at least 24 code units
  the key has 48 characters.
\<close>

theorem keyForQuery_deterministic:
  "getKeyForQuery env q =
     concat (map (\<lambda>c. [lit ''0123456789abcdef'' ! (unat c div 16 mod 16),
                       lit ''0123456789abcdef'' ! (unat c mod 16)])
       (take 24 (cryptoHash_SHA256 env (converter_convertToByteArray env q)))) \<and>
   (converter_convertToByteArray env' q = converter_convertToByteArray env q \<and>
    cryptoHash_SHA256 env' (converter_convertToByteArray env q) =
      cryptoHash_SHA256 env (converter_convertToByteArray env q) \<longrightarrow>
      getKeyForQuery env' q = getKeyForQuery env q) \<and>
   (24 \<le> length (cryptoHash_SHA256 env (converter_convertToByteArray env q)) \<longrightarrow>
      length (getKeyForQuery env q) = 48) \<and>
   set (getKeyForQuery env q) \<subseteq> set (lit ''0123456789abcdef'')"
proof -
  have "getKeyForQuery env' q = getKeyForQuery env q"
    if "converter_convertToByteArray env' q = converter_convertToByteArray env q"
      and "cryptoHash_SHA256 env' (converter_convertToByteArray env q) =
        cryptoHash_SHA256 env (converter_convertToByteArray env q)"
    using that by (simp add: getKeyForQuery_def getHash_def)
  then show ?thesis
    using getHash_digest [of env q] length_getHash [of env q] getHash_lower [of env q]
    by (simp add: getKeyForQuery_def)
qed

theorem keyForQuery_deterministic_witness:
  "converter_convertToByteArray
     (testPlatform\<lparr>eTLDService_getBaseDomainFromHost := \<lambda>h. Inr (lit ''example.org''),
        querystring_parse := \<lambda>s. Inr JSNull\<rparr>) (lit ''www.google.com'') =
     converter_convertToByteArray testPlatform (lit ''www.google.com'') \<and>
   cryptoHash_SHA256
     (testPlatform\<lparr>eTLDService_getBaseDomainFromHost := \<lambda>h. Inr (lit ''example.org''),
        querystring_parse := \<lambda>s. Inr JSNull\<rparr>)
     (converter_convertToByteArray testPlatform (lit ''www.google.com'')) =
     cryptoHash_SHA256 testPlatform
       (converter_convertToByteArray testPlatform (lit ''www.google.com'')) \<and>
   24 \<le> length (cryptoHash_SHA256 testPlatform
     (converter_convertToByteArray testPlatform (lit ''www.google.com''))) \<and>
   getKeyForQuery
     (testPlatform\<lparr>eTLDService_getBaseDomainFromHost := \<lambda>h. Inr (lit ''example.org''),
        querystring_parse := \<lambda>s. Inr JSNull\<rparr>)
     (lit ''www.google.com'') = lit ''191347bfe55d0ca9a574db77bc8648275ce258461450e793'' \<and>
   getKeyForQuery testPlatform (lit ''www.google.com'') =
     lit ''191347bfe55d0ca9a574db77bc8648275ce258461450e793'' \<and>
   getKeyForQuery testPlatform (lit ''google.com'') =
     lit ''d4c9d9027326271a89ce51fcaf328ed673f17be33469ff97'' \<and>
   length (getKeyForQuery testPlatform (lit ''www.google.com'')) = 48"
proof -
  let ?env' = "testPlatform\<lparr>eTLDService_getBaseDomainFromHost := \<lambda>h. Inr (lit ''example.org''),
        querystring_parse := \<lambda>s. Inr JSNull\<rparr>"
  have a: "24 \<le> length (cryptoHash_SHA256 testPlatform
      (converter_convertToByteArray testPlatform (lit ''www.google.com'')))"
    by (simp only: converter_testPlatform) (simp add: testPlatform_def)
  have b: "getKeyForQuery testPlatform (lit ''www.google.com'') =
      lit ''191347bfe55d0ca9a574db77bc8648275ce258461450e793''"
    "getKeyForQuery testPlatform (lit ''google.com'') =
      lit ''d4c9d9027326271a89ce51fcaf328ed673f17be33469ff97''"
    by (simp_all add: getKeyForQuery_def getHash_testPlatform)
  have c: "converter_convertToByteArray ?env' (lit ''www.google.com'') =
      converter_convertToByteArray testPlatform (lit ''www.google.com'')"
    by simp
  have d: "cryptoHash_SHA256 ?env'
        (converter_convertToByteArray testPlatform (lit ''www.google.com'')) =
      cryptoHash_SHA256 testPlatform
        (converter_convertToByteArray testPlatform (lit ''www.google.com''))"
    by simp
  note t = keyForQuery_deterministic [of testPlatform "lit ''www.google.com''" ?env']
  from t c d have e: "getKeyForQuery ?env' (lit ''www.google.com'') =
      getKeyForQuery testPlatform (lit ''www.google.com'')"
    by blast
  from t a have f: "length (getKeyForQuery testPlatform (lit ''www.google.com'')) = 48"
    by blast
  from a b c d e f show ?thesis by simp
qed

text \<open>
  The hypothesis on the hash service is needed: on a platform whose hash service answers
  the same bytes differently, the key is another one.
\<close>

lemma other_hash_service_other_key:
  "getKeyForQuery (testPlatform\<lparr>cryptoHash_SHA256 := \<lambda>d. replicate 32 0xFF\<rparr>)
     (lit ''www.google.com'') = lit ''ffffffffffffffffffffffffffffffffffffffffffffffff''"
  apply (simp add: getKeyForQuery_def getHash_digest)
  apply (simp add: lit_def numeral_eq_Suc)
  done

section \<open>The provider table\<close>

lemma exports_keep_state: "snd (exports env c st) = st"
  by (cases c) (simp_all add: getSearchTermFromURI_on_def)

lemma afterCalls_keep_state: "afterCalls env calls st = st"
  by (induction calls arbitrary: st) (simp_all add: exports_keep_state)

text \<open>
  C9. \<open>searchMap\<close> has exactly the four entries amazon, bing, google and yahoo, under
  distinct names. In each entry the path starts with \<open>/\<close> (0x2F) and ends with \<open>?\<close>
  (0x3F), and the query parameter is one name: not empty, and free of the separators
  \<open>&\<close> (0x26) and \<open>=\<close> (0x3D). The loaded module holds this table, every call of an
  exported function leaves the table of the state it is called in as it was, and after
  any sequence of calls on the loaded module the table is still this one.
\<close>

theorem searchMap_four_entries:
  "map fst searchMap = [lit ''amazon'', lit ''bing'', lit ''google'', lit ''yahoo''] \<and>
   distinct (map fst searchMap) \<and>
   list_all (\<lambda>e. entry_path e \<noteq> [] \<and> hd (entry_path e) = 0x2F \<and> last (entry_path e) = 0x3F \<and>
               entry_query e \<noteq> [] \<and> 0x26 \<notin> set (entry_query e) \<and> 0x3D \<notin> set (entry_query e))
     (map snd searchMap) \<and>
   searchMap_var loaded = searchMap \<and>
   searchMap_var (snd (exports env c st)) = searchMap_var st \<and>
   searchMap_var (afterCalls env calls loaded) = searchMap"
proof -
  have "map fst searchMap = [lit ''amazon'', lit ''bing'', lit ''google'', lit ''yahoo'']"
    by (simp add: searchMap_def)
  moreover have "distinct (map fst searchMap)"
    by (simp add: searchMap_def lit_def)
  moreover have "list_all (\<lambda>e. entry_path e \<noteq> [] \<and> hd (entry_path e) = 0x2F \<and>
      last (entry_path e) = 0x3F \<and> entry_query e \<noteq> [] \<and> 0x26 \<notin> set (entry_query e) \<and>
      0x3D \<notin> set (entry_query e)) (map snd searchMap)"
    by (simp add: searchMap_def lit_def)
  moreover have "searchMap_var loaded = searchMap"
    by (simp add: loaded_def)
  ultimately show ?thesis
    by (simp add: exports_keep_state afterCalls_keep_state)
qed

theorem searchMap_four_entries_witness:
  "searchMap_var (afterCalls testPlatform
     [Call_getSearchTermFromURI
        \<lparr>host = lit ''www.google.com'', path = lit ''/search?q=hello+world''\<rparr>,
      Call_getBaseDomainFromHost [],
      Call_getKeyForHost (lit ''www.google.com''),
      Call_getKeyForQuery (lit ''google.com'')] loaded) = searchMap \<and>
   length searchMap = 4"
  using searchMap_four_entries [of testPlatform "Call_getKeyForQuery []" loaded
      "[Call_getSearchTermFromURI
          \<lparr>host = lit ''www.google.com'', path = lit ''/search?q=hello+world''\<rparr>,
        Call_getBaseDomainFromHost [],
        Call_getKeyForHost (lit ''www.google.com''),
        Call_getKeyForQuery (lit ''google.com'')]"]
  by (simp add: searchMap_def)

end
